theory Spec2Isabelle
  imports Complex_Main "HOL-Library.Sublist" "HOL-Library.Multiset"
begin

section \<open>Python strings\<close>

text \<open>
  A Python \<open>str\<close> is a sequence of code points.  Every literal of the modelled sources
  (the crisis phrases, the subject table, the readiness labels) consists of code points
  below 256, so a string is modelled as a \<^typ>\<open>char list\<close> whose elements are the code
  points of the Latin-1 range.  On that range \<open>str.lower()\<close> maps each character to
  exactly one character: \<open>A\<close>--\<open>Z\<close> and the accented capitals \<open>0xC0\<close>--\<open>0xDE\<close>
  (without the multiplication sign \<open>0xD7\<close>) move up by 32, which is setting bit 5.
\<close>

definition is_upper :: "char \<Rightarrow> bool" where
  "is_upper c =
     (let n = (of_char c :: nat)
      in (65 \<le> n \<and> n \<le> 90) \<or> (192 \<le> n \<and> n \<le> 222 \<and> n \<noteq> 215))"

definition lower_char :: "char \<Rightarrow> char" where
  "lower_char c =
     (if is_upper c
      then (case c of Char b0 b1 b2 b3 b4 b5 b6 b7 \<Rightarrow> Char b0 b1 b2 b3 b4 True b6 b7)
      else c)"

definition lower :: "string \<Rightarrow> string" where
  "lower s = map lower_char s"

text \<open>\<open>str.strip()\<close> removes the characters for which \<open>str.isspace()\<close> holds.\<close>

definition is_space :: "char \<Rightarrow> bool" where
  "is_space c = ((of_char c :: nat) \<in> {9, 10, 11, 12, 13, 28, 29, 30, 31, 32, 133, 160})"

definition strip :: "string \<Rightarrow> string" where
  "strip s = rev (dropWhile is_space (rev (dropWhile is_space s)))"

text \<open>The substring test \<open>needle in hay\<close>.\<close>

fun py_in :: "string \<Rightarrow> string \<Rightarrow> bool" where
  "py_in needle [] = (needle = [])"
| "py_in needle (h # hs) = (prefix needle (h # hs) \<or> py_in needle hs)"

text \<open>
  The slice \<open>xs[:n]\<close>: the first \<open>n\<close> elements for \<open>n \<ge> 0\<close>, all but the last \<open>-n\<close>
  for a negative \<open>n\<close>; and the slice \<open>xs[-3:]\<close>, the last three elements (all of them
  when there are fewer).
\<close>

definition slice_to :: "int \<Rightarrow> 'a list \<Rightarrow> 'a list" where
  "slice_to n xs = (if 0 \<le> n then take (nat n) xs else take (length xs - nat (- n)) xs)"

definition last3 :: "'a list \<Rightarrow> 'a list" where
  "last3 xs = drop (length xs - 3) xs"

text \<open>
  \<open>sorted(xs, key=f, reverse=True)\<close> and \<open>xs.sort(key=f, reverse=True)\<close> are stable:
  elements with equal keys stay in their original order.  That is the stable ascending
  sort on the negated key.
\<close>

definition sorted_reverse :: "('a \<Rightarrow> rat) \<Rightarrow> 'a list \<Rightarrow> 'a list" where
  "sorted_reverse f xs = sort_key (\<lambda>x. - f x) xs"




section \<open>utils/subject\_mapper.py\<close>

abbreviation a_acute :: char where "a_acute \<equiv> CHR 0xE1"
abbreviation e_circ :: char where "e_circ \<equiv> CHR 0xEA"
abbreviation i_acute :: char where "i_acute \<equiv> CHR 0xED"
abbreviation o_acute :: char where "o_acute \<equiv> CHR 0xF3"

definition SUBJECT_NAME_MAP :: "(string \<times> string) list" where
  "SUBJECT_NAME_MAP =
    [(''matematica'', ''math''),
     (''matem'' @ [a_acute] @ ''tica'', ''math''),
     (''matem'' @ [a_acute] @ ''tica a'', ''math''),
     (''matematica a'', ''math''),
     (''mat a'', ''math''),
     (''fisica'', ''physics''),
     (''f'' @ [i_acute] @ ''sica'', ''physics''),
     (''fisica e quimica'', ''physics''),
     (''f'' @ [i_acute] @ ''sica e qu'' @ [i_acute] @ ''mica'', ''physics''),
     (''f'' @ [i_acute] @ ''sica e qu'' @ [i_acute] @ ''mica a'', ''physics''),
     (''fisica e quimica a'', ''physics''),
     (''fis quim a'', ''physics''),
     (''portugues'', ''portuguese''),
     (''portugu'' @ [e_circ] @ ''s'', ''portuguese''),
     (''port'', ''portuguese''),
     (''ingles'', ''english''),
     (''ingl'' @ [e_circ] @ ''s'', ''english''),
     (''ing'', ''english''),
     (''biologia'', ''biology''),
     (''geologia'', ''geology''),
     (''biologia e geologia'', ''biology''),
     (''bio geo'', ''biology''),
     (''historia'', ''history''),
     (''hist'' @ [o_acute] @ ''ria'', ''history''),
     (''hist'' @ [o_acute] @ ''ria a'', ''history''),
     (''historia a'', ''history''),
     (''geografia'', ''geography''),
     (''geografia a'', ''geography''),
     (''filosofia'', ''philosophy''),
     (''filos'', ''philosophy''),
     (''economia'', ''economics''),
     (''economia a'', ''economics''),
     (''quimica'', ''chemistry''),
     (''qu'' @ [i_acute] @ ''mica'', ''chemistry'')]"

definition normalize_subject_name :: "string \<Rightarrow> string" where
  "normalize_subject_name subject =
     (let subject_lower = strip (lower subject)
      in case map_of SUBJECT_NAME_MAP subject_lower of
           Some canonical \<Rightarrow> canonical
         | None \<Rightarrow> subject)"

text \<open>
  A grades dictionary is an association list in insertion order; a value may be
  \<open>None\<close>.  The loop of \<open>find_matching_grade\<close> returns at the first key whose
  normal form equals the target's: \<open>Some g\<close> is that return (with \<open>g\<close> possibly
  \<open>None\<close>), \<open>None\<close> is falling out of the loop.
\<close>

type_synonym grades = "(string \<times> rat option) list"

fun search_normalized :: "string \<Rightarrow> grades \<Rightarrow> rat option option" where
  "search_normalized target_norm [] = None"
| "search_normalized target_norm ((subject, grade) # rest) =
     (if normalize_subject_name (lower subject) = target_norm then Some grade
      else search_normalized target_norm rest)"

definition find_matching_grade :: "grades \<Rightarrow> string \<Rightarrow> rat option" where
  "find_matching_grade grades target_subject =
     (let target_norm = normalize_subject_name (lower target_subject)
      in case search_normalized target_norm grades of
           Some grade \<Rightarrow> grade
         | None \<Rightarrow>
             (case map_of grades target_subject of
                Some grade \<Rightarrow> grade
              | None \<Rightarrow> None))"

section \<open>config/settings.py\<close>

definition PASSING_GRADE :: rat where "PASSING_GRADE = 10"

definition CRISIS_KEYWORDS :: "string list" where
  "CRISIS_KEYWORDS =
    [''hurt myself'', ''kill myself'', ''suicide'', ''end my life'',
     ''want to die'', ''self harm'', ''self-harm'', ''cutting myself'',
     ''don'' @ [CHR 0x27] @ ''t want to live'', ''no reason to live'', ''better off dead'',
     ''end it all'', ''not worth living'', ''take my own life'']"

text \<open>
  An entry of the majors dataset.  Grades are on the 0--20 scale and are modelled as
  exact rationals.  The optional keys \<open>keywords\<close> (field \<open>keyword_list\<close>) and \<open>career_paths\<close> are read with
  \<open>.get(key, [])\<close> everywhere, so an absent key is the empty list.  The dataset itself
  (\<open>data/majors.json\<close>, returned by \<open>load_majors()\<close>) is a parameter of every
  function that reads it.
\<close>

record Major =
  major_id :: string
  name :: string
  name_pt :: "string option"
  description :: string
  requirements :: "(string \<times> rat) list"
  keyword_list :: "string list"
  career_paths :: "string list"

fun fuzzy_search :: "string \<Rightarrow> Major list \<Rightarrow> Major option" where
  "fuzzy_search name_lower [] = None"
| "fuzzy_search name_lower (m # ms) =
     (if py_in name_lower (lower (name m)) then Some m
      else if (case name_pt m of Some p \<Rightarrow> py_in name_lower (lower p) | None \<Rightarrow> False)
      then Some m
      else fuzzy_search name_lower ms)"

definition get_major_by_name :: "Major list \<Rightarrow> string \<Rightarrow> bool \<Rightarrow> Major option" where
  "get_major_by_name majors nm fuzzy =
     (let name_lower = lower nm
      in if fuzzy then fuzzy_search name_lower majors
         else find (\<lambda>m. lower (name m) = name_lower) majors)"


text \<open>
  Every \<open>raise\<close> of the services is a \<open>ValueError\<close>; the constructor records the raise
  site and the data its message is formatted from.
\<close>

datatype service_error =
    NoGradesProvided
  | AllGradesNone
  | InvalidGrade string rat
  | MajorNotFound string
  | NoRequirements string
  | InvalidIntLiteral string

section \<open>services/transcript\_service.py\<close>

record GradeGap =
  subject :: string
  student_grade :: rat
  required_grade :: rat
  gap :: rat
  severity :: string
  priority :: int

definition is_gap :: "GradeGap \<Rightarrow> bool" where
  "is_gap g = (gap g > 0)"

record TranscriptAnalysis =
  grades :: "(string \<times> rat) list"
  gpa :: rat
  strengths :: "string list"
  weaknesses :: "string list"
  passing_all :: bool
  overall_quality :: string



text \<open>The body of the loop over \<open>requirements.items()\<close>: one \<open>GradeGap\<close> per requirement.\<close>

definition grade_gap :: "grades \<Rightarrow> string \<Rightarrow> rat \<Rightarrow> GradeGap" where
  "grade_gap student_grades subj required =
     (let student =
            (case find_matching_grade student_grades subj of
               None \<Rightarrow> PASSING_GRADE
             | Some g \<Rightarrow> g);
          gap_value = required - student;
          sev =
            (if gap_value \<le> 0 then ''meets''
             else if gap_value \<le> 2 then ''close''
             else ''significant'');
          prio =
            (if gap_value > 4 then 1
             else if gap_value > 2 then 2
             else if gap_value > 0 then 3
             else 4)
      in \<lparr>subject = subj, student_grade = student, required_grade = required,
          gap = gap_value, severity = sev, priority = prio\<rparr>)"

definition readiness_of :: "GradeGap list \<Rightarrow> string" where
  "readiness_of gaps =
     (let actual_gaps = filter is_gap gaps
      in if actual_gaps = [] then ''ready''
         else if list_all (\<lambda>g. severity g = ''close'') actual_gaps then ''mostly_ready''
         else if list_ex (\<lambda>g. severity g = ''significant'') actual_gaps then
           (if length (filter (\<lambda>g. severity g = ''significant'') actual_gaps) \<ge> 2
            then ''significant_gaps''
            else ''needs_improvement'')
         else ''needs_improvement'')"

definition compare_grades_to_requirements ::
    "Major list \<Rightarrow> grades \<Rightarrow> string \<Rightarrow> service_error + (GradeGap list \<times> string)" where
  "compare_grades_to_requirements majors student_grades major_name =
     (case get_major_by_name majors major_name True of
        None \<Rightarrow> Inl (MajorNotFound major_name)
      | Some m \<Rightarrow>
          if requirements m = [] then Inl (NoRequirements major_name)
          else
            let gaps = map (\<lambda>(subj, required). grade_gap student_grades subj required)
                           (requirements m)
            in Inr (gaps, readiness_of gaps))"

section \<open>services/major\_service.py\<close>

text \<open>
  The reasons of a match are formatted by joining the elements of a Python \<open>set\<close>, whose
  iteration order the language leaves open; a reason is therefore kept as its kind
  together with the set it lists.
\<close>

datatype reason =
    MatchesInterests "string set"
  | AlignsWithSubjects "string set"
  | MatchesCareerGoals
  | GeneralInterestAlignment

record MajorMatch =
  major :: Major
  score :: rat
  reasons :: "reason list"
  matching_keywords :: "string set"














text \<open>\<open>get_similar_majors\<close>: Jaccard similarity of the lower-cased keyword sets.\<close>

definition similarity_to :: "Major \<Rightarrow> Major \<Rightarrow> rat" where
  "similarity_to reference m =
     (let ref_keywords = set (map lower (keyword_list reference));
          major_keywords = set (map lower (keyword_list m))
      in of_nat (card (ref_keywords \<inter> major_keywords))
         / of_nat (card (ref_keywords \<union> major_keywords)))"

definition overlap :: "Major \<Rightarrow> Major \<Rightarrow> nat" where
  "overlap reference m =
     card (set (map lower (keyword_list reference)) \<inter> set (map lower (keyword_list m)))"

definition get_similar_majors :: "Major list \<Rightarrow> string \<Rightarrow> int \<Rightarrow> Major list" where
  "get_similar_majors majors major_name top_n =
     (case get_major_by_name majors major_name True of
        None \<Rightarrow> []
      | Some reference \<Rightarrow>
          let candidates = filter (\<lambda>m. major_id m \<noteq> major_id reference \<and> overlap reference m > 0)
                                  majors;
              similarities = map (\<lambda>m. (m, similarity_to reference m)) candidates;
              ranked = sorted_reverse snd similarities
          in map fst (slice_to top_n ranked))"

section \<open>core/router.py\<close>

datatype IntentType =
    CRISIS_SAFETY
  | MAJOR_DISCOVERY
  | TRANSCRIPT_ANALYSIS
  | GAP_ANALYSIS
  | RESOURCE_REQUEST
  | GENERAL_QUESTION
  | GREETING_OR_CHITCHAT
  | UNKNOWN

fun intent_value :: "IntentType \<Rightarrow> string" where
  "intent_value CRISIS_SAFETY = ''crisis_safety''"
| "intent_value MAJOR_DISCOVERY = ''major_discovery''"
| "intent_value TRANSCRIPT_ANALYSIS = ''transcript_analysis''"
| "intent_value GAP_ANALYSIS = ''gap_analysis''"
| "intent_value RESOURCE_REQUEST = ''resource_request''"
| "intent_value GENERAL_QUESTION = ''general_question''"
| "intent_value GREETING_OR_CHITCHAT = ''greeting_or_chitchat''"
| "intent_value UNKNOWN = ''unknown''"

text \<open>\<open>IntentType(intent_str)\<close>: the member with that value; \<open>None\<close> is the \<open>ValueError\<close>.\<close>

definition intent_of_value :: "string \<Rightarrow> IntentType option" where
  "intent_of_value v =
     find (\<lambda>i. intent_value i = v)
       [CRISIS_SAFETY, MAJOR_DISCOVERY, TRANSCRIPT_ANALYSIS, GAP_ANALYSIS, RESOURCE_REQUEST,
        GENERAL_QUESTION, GREETING_OR_CHITCHAT, UNKNOWN]"

text \<open>
  The \<open>context\<close> dictionary of an \<open>IntentResult\<close> is only read with \<open>.get\<close>; an
  absent key and the value \<open>None\<close> are both \<open>None\<close> here.  (The field is called
  \<open>ctx\<close>.)
\<close>

record IntentContext =
  ctx_major :: "string option"
  ctx_subjects :: "string list"
  ctx_interests :: "string list"
  ctx_has_transcript :: "bool option"

record IntentResult =
  intent :: IntentType
  confidence :: rat
  reasoning :: "string option"
  ctx :: IntentContext
  requires_transcript :: bool
  requires_major :: bool

definition empty_context :: IntentContext where
  "empty_context = \<lparr>ctx_major = None, ctx_subjects = [], ctx_interests = [],
                     ctx_has_transcript = None\<rparr>"

text \<open>The JSON object returned by the structured-output call; every key is optional.\<close>

record Entities =
  major_mentioned :: "string option"
  subjects_mentioned :: "string list option"
  interests_mentioned :: "string list option"
  has_transcript_reference :: "bool option"

record Classification =
  cls_intent :: "string option"
  cls_confidence :: "rat option"
  cls_reasoning :: "string option"
  extracted_entities :: "Entities option"

record ChatMessage =
  role :: string
  content :: string

record UploadedFile =
  file_name :: "string option"
  file_path :: "string option"

section \<open>core/orchestrator.py: data\<close>

datatype AgentStatus = IDLE | THINKING | CALLING_TOOL | SYNTHESIZING | COMPLETED | ERROR

fun status_value :: "AgentStatus \<Rightarrow> string" where
  "status_value IDLE = ''idle''"
| "status_value THINKING = ''thinking''"
| "status_value CALLING_TOOL = ''calling_tool''"
| "status_value SYNTHESIZING = ''synthesizing''"
| "status_value COMPLETED = ''completed''"
| "status_value ERROR = ''error''"

text \<open>
  Tool arguments are the key--value pairs sent by the model.  The payload of a tool is
  opaque to the orchestrator, which only ever renders it with \<open>str()\<close>; it is kept as
  that rendering.  The \<open>metadata\<close> of a \<open>ToolResult\<close> is either empty (\<open>None\<close>) or
  holds the arguments used.
\<close>

type_synonym tool_args = "(string \<times> string) list"

record ToolResult =
  tool_name :: string
  success :: bool
  result :: "string option"
  error :: "string option"
  execution_time :: rat
  metadata :: "tool_args option"

record ToolCallEntry =
  entry_tool :: string
  entry_success :: bool
  entry_timestamp :: rat

record AgentState =
  user_message :: string
  conversation_history :: "ChatMessage list"
  uploaded_files :: "UploadedFile list"
  intent_result :: "IntentResult option"
  status :: AgentStatus
  tool_calls :: "ToolCallEntry list"
  tool_results :: "ToolResult list"
  plan :: "string option"
  final_response :: "string option"
  error_message :: "string option"
  session_id :: "string option"
  user_id :: "string option"
  start_time :: rat
  total_execution_time :: rat

record ToolCall =
  call_name :: string
  call_args :: tool_args

section \<open>The outside world\<close>

text \<open>
  The three entry points of the language-model client, the wall clock and the UUID
  generator are external.  A prompt is kept as the data it is formatted from.  The
  \<open>World\<close> counts the clock readings and logs every prompt sent to the model, in order;
  the answers of the model may depend on the world, so two calls with the same prompt
  may differ.  An exception is kept as its message.
\<close>

datatype prompt =
    ClassificationPrompt "ChatMessage list" "(string \<times> string) list" string
  | GreetingPrompt string
  | DecisionPrompt IntentType string "string option" "ToolResult list" "(string \<times> string) list"
  | SynthesisPrompt string IntentType "ToolResult list"

record World =
  ticks :: nat
  llm_log :: "prompt list"

type_synonym tool = "World \<Rightarrow> tool_args \<Rightarrow> string + string option"

record Env =
  clock :: "nat \<Rightarrow> rat"
  generate_structured_output :: "World \<Rightarrow> prompt \<Rightarrow> string + Classification"
  call_llm :: "World \<Rightarrow> prompt \<Rightarrow> string + string"
  call_llm_with_tools :: "World \<Rightarrow> prompt \<Rightarrow> string + ToolCall list"
  uuid4 :: "World \<Rightarrow> string"
  CRISIS_RESPONSE :: string

definition time_now :: "Env \<Rightarrow> World \<Rightarrow> rat \<times> World" where
  "time_now env w = (clock env (ticks w), w\<lparr>ticks := Suc (ticks w)\<rparr>)"

definition sent :: "prompt \<Rightarrow> World \<Rightarrow> World" where
  "sent p w = w\<lparr>llm_log := llm_log w @ [p]\<rparr>"

section \<open>core/router.py: classification\<close>

definition detect_crisis_keywords :: "string \<Rightarrow> bool" where
  "detect_crisis_keywords message =
     (let message_lower = lower message
      in list_ex (\<lambda>keyword. py_in keyword message_lower) CRISIS_KEYWORDS)"

definition has_files :: "UploadedFile list option \<Rightarrow> bool" where
  "has_files uploaded = (case uploaded of None \<Rightarrow> False | Some fs \<Rightarrow> length fs > 0)"

definition any_in :: "string list \<Rightarrow> string \<Rightarrow> bool" where
  "any_in kws message_lower = list_ex (\<lambda>kw. py_in kw message_lower) kws"

definition fallback_classification :: "string \<Rightarrow> UploadedFile list option \<Rightarrow> IntentResult" where
  "fallback_classification message uploaded =
     (let message_lower = lower message;
          has_transcript =
            (has_files uploaded
             \<or> any_in [''transcript'', ''grades'', ''report card'', ''my scores''] message_lower);
          chosen =
            (if any_in [''hello'', ''hi'', ''hey'', ''thanks'', ''thank you''] message_lower
             then GREETING_OR_CHITCHAT
             else if any_in [''what major'', ''which major'', ''suggest major'',
                             ''recommend major'', ''i like'', ''i love'', ''interested in'']
                            message_lower
             then MAJOR_DISCOVERY
             else if any_in [''am i ready'', ''do i qualify'', ''meet requirements'',
                             ''good enough''] message_lower \<and> has_transcript
             then GAP_ANALYSIS
             else if has_transcript then TRANSCRIPT_ANALYSIS
             else if any_in [''study'', ''learn'', ''improve'', ''course'', ''resource'',
                             ''how can i''] message_lower
             then RESOURCE_REQUEST
             else GENERAL_QUESTION)
      in \<lparr>intent = chosen, confidence = 6 / 10,
          reasoning = Some ''Classified using keyword fallback due to LLM error'',
          ctx = empty_context\<lparr>ctx_has_transcript := Some (has_files uploaded)\<rparr>,
          requires_transcript = has_transcript, requires_major = False\<rparr>)"

definition classification_prompt ::
    "string \<Rightarrow> ChatMessage list option \<Rightarrow> UploadedFile list option \<Rightarrow> prompt" where
  "classification_prompt message history uploaded =
     ClassificationPrompt
       (case history of None \<Rightarrow> [] | Some h \<Rightarrow> last3 h)
       (case uploaded of
          None \<Rightarrow> []
        | Some fs \<Rightarrow>
            map (\<lambda>f. (case file_name f of None \<Rightarrow> ''unnamed'' | Some n \<Rightarrow> n,
                      case file_path f of None \<Rightarrow> ''unknown'' | Some q \<Rightarrow> q)) fs)
       message"

definition intent_from_reply :: "Classification \<Rightarrow> UploadedFile list option \<Rightarrow> IntentResult" where
  "intent_from_reply reply uploaded =
     (let intent_str = (case cls_intent reply of None \<Rightarrow> ''unknown'' | Some v \<Rightarrow> v);
          chosen = (case intent_of_value intent_str of None \<Rightarrow> UNKNOWN | Some i \<Rightarrow> i);
          entities =
            (case extracted_entities reply of
               None \<Rightarrow> \<lparr>major_mentioned = None, subjects_mentioned = None,
                          interests_mentioned = None, has_transcript_reference = None\<rparr>
             | Some e \<Rightarrow> e);
          has_actual_transcript = has_files uploaded
      in \<lparr>intent = chosen,
          confidence = (case cls_confidence reply of None \<Rightarrow> 9 / 10 | Some c \<Rightarrow> c),
          reasoning = Some (case cls_reasoning reply of None \<Rightarrow> [] | Some r \<Rightarrow> r),
          ctx = \<lparr>ctx_major = major_mentioned entities,
                  ctx_subjects = (case subjects_mentioned entities of None \<Rightarrow> [] | Some x \<Rightarrow> x),
                  ctx_interests = (case interests_mentioned entities of None \<Rightarrow> [] | Some x \<Rightarrow> x),
                  ctx_has_transcript = Some has_actual_transcript\<rparr>,
          requires_transcript =
            (chosen = TRANSCRIPT_ANALYSIS \<or> chosen = GAP_ANALYSIS
             \<or> (case has_transcript_reference entities of None \<Rightarrow> False | Some b \<Rightarrow> b)),
          requires_major = (chosen = GAP_ANALYSIS \<and> major_mentioned entities \<noteq> None)\<rparr>)"

definition classify_intent ::
    "Env \<Rightarrow> string \<Rightarrow> ChatMessage list option \<Rightarrow> UploadedFile list option \<Rightarrow> World
      \<Rightarrow> IntentResult \<times> World" where
  "classify_intent env message history uploaded w =
     (if detect_crisis_keywords message
      then (\<lparr>intent = CRISIS_SAFETY, confidence = 1,
              reasoning = Some ''Crisis/safety keywords detected in user message'',
              ctx = empty_context, requires_transcript = False, requires_major = False\<rparr>, w)
      else
        let p = classification_prompt message history uploaded
        in (case generate_structured_output env w p of
              Inr reply \<Rightarrow> (intent_from_reply reply uploaded, sent p w)
            | Inl e \<Rightarrow> (fallback_classification message uploaded, sent p w)))"

definition rephrase_question :: string where
  "rephrase_question = ''I'' @ [CHR 0x27] @ ''m not quite sure what you'' @ [CHR 0x27] @ ''re looking for. Could you rephrase that?''"

definition which_major_question :: string where
  "which_major_question = ''Which major would you like me to check your readiness for?''"

definition upload_prompt :: string where
  "upload_prompt = ''I'' @ [CHR 0x27] @ ''ll need to see your transcript to help with that. Could you upload your grades PDF?''"

definition truthy_str :: "string option \<Rightarrow> bool" where
  "truthy_str s = (case s of None \<Rightarrow> False | Some t \<Rightarrow> t \<noteq> [])"

definition requires_clarification :: "IntentResult \<Rightarrow> string option" where
  "requires_clarification r =
     (if confidence r < 1 / 2 then Some rephrase_question
      else if intent r = GAP_ANALYSIS \<and> \<not> truthy_str (ctx_major (ctx r))
      then Some which_major_question
      else if requires_transcript r \<and> ctx_has_transcript (ctx r) \<noteq> Some True
      then Some upload_prompt
      else None)"

section \<open>core/orchestrator.py: the agent loop\<close>

record Orchestrator =
  tool_registry :: "string \<Rightarrow> tool option"
  max_iterations :: int
  max_tool_calls :: int

definition execute_tool ::
    "Env \<Rightarrow> Orchestrator \<Rightarrow> string \<Rightarrow> tool_args \<Rightarrow> World \<Rightarrow> ToolResult \<times> World" where
  "execute_tool env orch tname targs w =
     (let (t0, w1) = time_now env w
      in case tool_registry orch tname of
           None \<Rightarrow>
             (let (t1, w2) = time_now env w1
              in (\<lparr>tool_name = tname, success = False, result = None,
                    error = Some ((''Tool '' @ [CHR 0x27] @ tname @ [CHR 0x27] @ '' not found in registry'')),
                    execution_time = t1 - t0, metadata = None\<rparr>, w2))
         | Some tool_func \<Rightarrow>
             (case tool_func w1 targs of
                Inr payload \<Rightarrow>
                  (let (t1, w2) = time_now env w1
                   in (\<lparr>tool_name = tname, success = True, result = payload, error = None,
                         execution_time = t1 - t0, metadata = Some targs\<rparr>, w2))
              | Inl e \<Rightarrow>
                  (let (t1, w2) = time_now env w1
                   in (\<lparr>tool_name = tname, success = False, result = None, error = Some e,
                         execution_time = t1 - t0, metadata = Some targs\<rparr>, w2))))"

definition add_tool_result :: "Env \<Rightarrow> ToolResult \<Rightarrow> AgentState \<Rightarrow> World \<Rightarrow> AgentState \<times> World" where
  "add_tool_result env r st w =
     (let (t, w1) = time_now env w
      in (st\<lparr>tool_results := tool_results st @ [r],
              tool_calls := tool_calls st
                 @ [\<lparr>entry_tool = tool_name r, entry_success = success r, entry_timestamp = t\<rparr>]\<rparr>,
          w1))"

fun execute_calls ::
    "Env \<Rightarrow> Orchestrator \<Rightarrow> ToolCall list \<Rightarrow> AgentState \<Rightarrow> World \<Rightarrow> AgentState \<times> World" where
  "execute_calls env orch [] st w = (st, w)"
| "execute_calls env orch (c # cs) st w =
     (let (r, w1) = execute_tool env orch (call_name c) (call_args c) w;
          (st1, w2) = add_tool_result env r st w1
      in execute_calls env orch cs st1 w2)"

definition state_intent :: "AgentState \<Rightarrow> IntentType" where
  "state_intent st = (case intent_result st of None \<Rightarrow> UNKNOWN | Some r \<Rightarrow> intent r)"

definition create_plan :: "AgentState \<Rightarrow> string" where
  "create_plan st =
     (case state_intent st of
        MAJOR_DISCOVERY \<Rightarrow> (''1. Extract user'' @ [CHR 0x27] @ ''s interests and favorite subjects'' @ [CHR 0x0A] @ ''2. Call get_major_suggestions tool'' @ [CHR 0x0A] @ ''3. Present top 3-5 matching majors with explanations'')
      | TRANSCRIPT_ANALYSIS \<Rightarrow> (''1. Call parse_transcript tool to extract grades'' @ [CHR 0x0A] @ ''2. Identify strongest and weakest subjects'' @ [CHR 0x0A] @ ''3. Provide overview of academic profile'')
      | GAP_ANALYSIS \<Rightarrow> (''1. Parse transcript if not already done'' @ [CHR 0x0A] @ ''2. Get major requirements using get_major_info'' @ [CHR 0x0A] @ ''3. Call analyze_grade_gaps to compare'' @ [CHR 0x0A] @ ''4. If gaps exist, call find_study_resources for weak subjects'')
      | RESOURCE_REQUEST \<Rightarrow> (''1. Identify subject and specific topic from user message'' @ [CHR 0x0A] @ ''2. Call find_study_resources tool'' @ [CHR 0x0A] @ ''3. Present curated list with study plan'')
      | GENERAL_QUESTION \<Rightarrow> (''1. Use general knowledge to answer'' @ [CHR 0x0A] @ ''2. Call get_major_info if specific major mentioned'' @ [CHR 0x0A] @ ''3. Provide comprehensive, cited answer'')
      | _ \<Rightarrow> ''Analyze message and respond appropriately'')"

text \<open>
  \<open>_decide_next_tool\<close> reads \<open>f['name']\<close> and \<open>f['path']\<close> of every uploaded file, which
  raises \<open>KeyError\<close> on a file without that key, and then asks the model.
\<close>

fun file_infos :: "UploadedFile list \<Rightarrow> string + (string \<times> string) list" where
  "file_infos [] = Inr []"
| "file_infos (f # fs) =
     (case file_name f of
        None \<Rightarrow> Inl ''name''
      | Some n \<Rightarrow>
          (case file_path f of
             None \<Rightarrow> Inl ''path''
           | Some q \<Rightarrow>
               (case file_infos fs of Inl e \<Rightarrow> Inl e | Inr rest \<Rightarrow> Inr ((n, q) # rest))))"

definition decide_next_tool :: "Env \<Rightarrow> AgentState \<Rightarrow> World \<Rightarrow> (string + ToolCall list) \<times> World" where
  "decide_next_tool env st w =
     (case file_infos (uploaded_files st) of
        Inl e \<Rightarrow> (Inl e, w)
      | Inr infos \<Rightarrow>
          let p = DecisionPrompt (state_intent st) (user_message st) (plan st)
                                 (tool_results st) infos
          in (call_llm_with_tools env w p, sent p w))"

text \<open>
  The \<open>while iteration < self.max_iterations\<close> loop.  The first component of the result
  is the exception that left the loop, if any; the state keeps what was done before it.
\<close>

function act_loop ::
    "Env \<Rightarrow> Orchestrator \<Rightarrow> int \<Rightarrow> AgentState \<Rightarrow> World \<Rightarrow> string option \<times> AgentState \<times> World" where
  "act_loop env orch iteration st w =
     (if iteration < max_iterations orch then
        (if int (length (tool_calls st)) \<ge> max_tool_calls orch then (None, st, w)
         else
           let st1 = st\<lparr>status := CALLING_TOOL\<rparr>
           in (case decide_next_tool env st1 w of
                 (Inl e, w1) \<Rightarrow> (Some e, st1, w1)
               | (Inr calls, w1) \<Rightarrow>
                   if calls = [] then (None, st1, w1)
                   else
                     (case execute_calls env orch calls st1 w1 of
                        (st2, w2) \<Rightarrow> act_loop env orch (iteration + 1) st2 w2)))
      else (None, st, w))"
  by pat_completeness auto
termination
  by (relation "measure (\<lambda>(env, orch, iteration, st, w). nat (max_iterations orch - iteration))")
     auto

definition handle_greeting :: "Env \<Rightarrow> string \<Rightarrow> World \<Rightarrow> (string + string) \<times> World" where
  "handle_greeting env message w =
     (let p = GreetingPrompt message in (call_llm env w p, sent p w))"

definition synthesize_response :: "Env \<Rightarrow> AgentState \<Rightarrow> World \<Rightarrow> (string + string) \<times> World" where
  "synthesize_response env st w =
     (let p = SynthesisPrompt (user_message st) (state_intent st) (tool_results st)
      in (call_llm env w p, sent p w))"

definition apology :: string where
  "apology = ''I encountered an error while processing your request. Could you try rephrasing or let me know if you need help?''"

definition failed :: "string \<Rightarrow> AgentState \<Rightarrow> AgentState" where
  "failed e st = st\<lparr>status := ERROR, error_message := Some e, final_response := Some apology\<rparr>"

definition finish :: "Env \<Rightarrow> AgentState \<Rightarrow> World \<Rightarrow> AgentState \<times> World" where
  "finish env st w =
     (let (t, w1) = time_now env w in (st\<lparr>total_execution_time := t - start_time st\<rparr>, w1))"

definition run ::
    "Env \<Rightarrow> Orchestrator \<Rightarrow> string \<Rightarrow> ChatMessage list option \<Rightarrow> UploadedFile list option
      \<Rightarrow> string option \<Rightarrow> string option \<Rightarrow> World \<Rightarrow> AgentState \<times> World" where
  "run env orch message history uploaded sid uid w =
     (let (t0, w0) = time_now env w;
          st0 = \<lparr>user_message = message,
                 conversation_history = (case history of None \<Rightarrow> [] | Some h \<Rightarrow> h),
                 uploaded_files = (case uploaded of None \<Rightarrow> [] | Some fs \<Rightarrow> fs),
                 intent_result = None, status = IDLE, tool_calls = [], tool_results = [],
                 plan = None, final_response = None, error_message = None,
                 session_id = sid, user_id = uid, start_time = t0, total_execution_time = 0\<rparr>;
          (ir, w1) = classify_intent env message history uploaded w0;
          st1 = st0\<lparr>status := THINKING, intent_result := Some ir\<rparr>
      in if truthy_str (requires_clarification ir)
         then finish env (st1\<lparr>final_response := requires_clarification ir,
                                status := COMPLETED\<rparr>) w1
         else if intent ir = GREETING_OR_CHITCHAT
         then (case handle_greeting env message w1 of
                 (Inr reply, w2) \<Rightarrow>
                   finish env (st1\<lparr>final_response := Some reply, status := COMPLETED\<rparr>) w2
               | (Inl e, w2) \<Rightarrow> finish env (failed e st1) w2)
         else
           let st2 = st1\<lparr>status := THINKING, plan := Some (create_plan st1)\<rparr>
           in (case act_loop env orch 0 st2 w1 of
                 (Some e, st3, w2) \<Rightarrow> finish env (failed e st3) w2
               | (None, st3, w2) \<Rightarrow>
                   let st4 = st3\<lparr>status := SYNTHESIZING\<rparr>
                   in (case synthesize_response env st4 w2 of
                         (Inr reply, w3) \<Rightarrow>
                           finish env (st4\<lparr>final_response := Some reply,
                                            status := COMPLETED\<rparr>) w3
                       | (Inl e, w3) \<Rightarrow> finish env (failed e st4) w3)))"

definition run_agent_loop ::
    "Env \<Rightarrow> string \<Rightarrow> (string \<Rightarrow> tool option) \<Rightarrow> ChatMessage list option
      \<Rightarrow> UploadedFile list option \<Rightarrow> string option \<Rightarrow> string option \<Rightarrow> int \<Rightarrow> World
      \<Rightarrow> AgentState \<times> World" where
  "run_agent_loop env message registry history uploaded sid uid max_iter w =
     run env \<lparr>tool_registry = registry, max_iterations = max_iter, max_tool_calls = 10\<rparr>
         message history uploaded sid uid w"

section \<open>services/chat\_service.py\<close>

text \<open>
  The \<open>metadata\<close> dictionary of a response holds a subset of six keys.  The fields
  \<open>success\<close> and \<open>metadata\<close> of \<open>ChatResponse\<close> are called \<open>response_success\<close> and
  \<open>response_metadata\<close>, the names being taken by \<open>ToolResult\<close>.
\<close>

record Metadata =
  meta_intent :: "string option"
  meta_tools_used :: "string list option"
  meta_execution_time :: "rat option"
  meta_session_id :: "string option"
  meta_error :: "string option"
  meta_status :: "string option"

definition no_metadata :: Metadata where
  "no_metadata = \<lparr>meta_intent = None, meta_tools_used = None, meta_execution_time = None,
                   meta_session_id = None, meta_error = None, meta_status = None\<rparr>"

record ChatResponse =
  message :: string
  response_success :: bool
  response_metadata :: Metadata
  suggestions :: "string list option"
  agent_state :: "AgentState option"

definition str_of_result :: "string option \<Rightarrow> string" where
  "str_of_result r = (case r of None \<Rightarrow> ''None'' | Some s \<Rightarrow> s)"

definition generate_suggestions :: "AgentState \<Rightarrow> string list" where
  "generate_suggestions st =
     (case intent_result st of
        None \<Rightarrow> []
      | Some ir \<Rightarrow>
          let v = intent_value (intent ir);
              chosen =
                (if v = ''major_discovery'' then [''Tell me more about one of these majors'',
                   ''Check if my grades meet the requirements'',
                   ''What careers can I pursue with this major?'']
                 else if v = ''transcript_analysis'' then [''Which major should I consider based on my grades?'',
                   ''How can I improve my weakest subject?'',
                   ''Am I ready for Computer Science?'']
                 else if v = ''gap_analysis'' then
                   (let has_gaps =
                          list_ex (\<lambda>tr. py_in ''gap'' (lower (str_of_result (result tr)))
                                         \<or> py_in ''improve'' (lower (str_of_result (result tr))))
                                  (filter success (tool_results st))
                    in if has_gaps then [''Show me resources to improve my weak subjects'',
                     ''What'' @ [CHR 0x27] @ ''s a realistic timeline to close these gaps?'',
                     ''Are there alternative majors that fit my current grades?''] else [''What universities offer this major?'',
                     ''What should I focus on to maintain my readiness?'',
                     ''Tell me about career prospects in this field''])
                 else if v = ''resource_request'' then [''Create a study schedule for me'',
                   ''Are there any free courses available?'',
                   ''What'' @ [CHR 0x27] @ ''s the most important topic to focus on first?'']
                 else if v = ''general_question'' then [''Help me find majors that match my interests'',
                   ''Analyze my transcript'',
                   ''What are the most popular majors?'']
                 else [])
          in take 3 chosen)"

definition get_error_message :: string where
  "get_error_message = ''I'' @ [CHR 0x27] @ ''m having trouble processing your request right now. This could be a temporary issue. Please try:'' @ [CHR 0x0A] @ ''- Rephrasing your question'' @ [CHR 0x0A] @ ''- Being more specific about what you need'' @ [CHR 0x0A] @ ''- Checking if any files uploaded correctly'' @ [CHR 0x0A] @ [CHR 0x0A] @ ''If the problem persists, feel free to start a new conversation.''"

definition process_message ::
    "Env \<Rightarrow> (string \<Rightarrow> tool option) \<Rightarrow> string \<Rightarrow> ChatMessage list option
      \<Rightarrow> UploadedFile list option \<Rightarrow> string option \<Rightarrow> string option \<Rightarrow> World
      \<Rightarrow> ChatResponse \<times> World" where
  "process_message env registry msg history uploaded sid uid w =
     (let sid1 = (if truthy_str sid then (case sid of None \<Rightarrow> [] | Some x \<Rightarrow> x) else uuid4 env w);
          (quick_intent, w1) = classify_intent env msg None None w
      in if intent quick_intent = CRISIS_SAFETY
         then (\<lparr>message = CRISIS_RESPONSE env, response_success = True,
                 response_metadata = no_metadata\<lparr>meta_intent := Some ''crisis_safety'',
                                                   meta_session_id := Some sid1\<rparr>,
                 suggestions = None, agent_state = None\<rparr>, w1)
         else
           (case run_agent_loop env msg registry
                   (Some (case history of None \<Rightarrow> [] | Some h \<Rightarrow> h))
                   (Some (case uploaded of None \<Rightarrow> [] | Some fs \<Rightarrow> fs))
                   (Some sid1) uid 5 w1 of
              (st, w2) \<Rightarrow>
                if status_value (status st) = ''completed'' \<and> truthy_str (final_response st)
                then (\<lparr>message = str_of_result (final_response st), response_success = True,
                        response_metadata = no_metadata\<lparr>
                          meta_intent := Some (case intent_result st of
                                                 None \<Rightarrow> ''unknown''
                                               | Some ir \<Rightarrow> intent_value (intent ir)),
                          meta_tools_used := Some (map tool_name (tool_results st)),
                          meta_execution_time := Some (total_execution_time st),
                          meta_session_id := Some sid1\<rparr>,
                        suggestions = Some (generate_suggestions st),
                        agent_state = Some st\<rparr>, w2)
                else if status_value (status st) = ''error''
                then (\<lparr>message = (if truthy_str (final_response st)
                                    then str_of_result (final_response st)
                                    else get_error_message),
                        response_success = False,
                        response_metadata = no_metadata\<lparr>meta_error := error_message st,
                                                          meta_session_id := Some sid1\<rparr>,
                        suggestions = None, agent_state = Some st\<rparr>, w2)
                else (\<lparr>message = (''I had trouble processing that. Could you try rephrasing?''),
                        response_success = False,
                        response_metadata = no_metadata\<lparr>
                          meta_status := Some (status_value (status st)),
                          meta_session_id := Some sid1\<rparr>,
                        suggestions = None, agent_state = Some st\<rparr>, w2)))"

section \<open>Sample data\<close>

text \<open>A small dataset and a fixed outside world, used to run the definitions.\<close>

definition computer_science :: Major where
  "computer_science =
     \<lparr>major_id = ''computer_science'', name = ''Computer Science'', name_pt = None,
      description = ''Study of computing and programming'',
      requirements = [(''Math'', 16), (''Physics'', 14)],
      keyword_list = [''Programming'', ''algorithms''],
      career_paths = [''Software Engineer'', ''Data Scientist'']\<rparr>"

definition data_science :: Major where
  "data_science =
     \<lparr>major_id = ''data_science'', name = ''Data Science'', name_pt = None,
      description = ''Study of data'',
      requirements = [(''Math'', 17)],
      keyword_list = [''data'', ''statistics'', ''programming''],
      career_paths = [''Data Scientist'']\<rparr>"

definition fine_arts :: Major where
  "fine_arts =
     \<lparr>major_id = ''fine_arts'', name = ''Fine Arts'', name_pt = Some ''Belas Artes'',
      description = ''Painting and sculpture'',
      requirements = [(''Portuguese'', 12)],
      keyword_list = [''painting''],
      career_paths = [''Artist'']\<rparr>"

definition mathematics :: Major where
  "mathematics =
     \<lparr>major_id = ''mathematics'', name = ''Mathematics'', name_pt = None,
      description = ''Pure and applied mathematics'',
      requirements = [(''Math'', 16)],
      keyword_list = [''proofs''],
      career_paths = [''Researcher'']\<rparr>"

definition sample_majors :: "Major list" where
  "sample_majors = [computer_science, data_science, fine_arts, mathematics]"

definition sample_env :: Env where
  "sample_env =
     \<lparr>clock = (\<lambda>n. of_nat n / 4),
      generate_structured_output =
        (\<lambda>w p. Inr \<lparr>cls_intent = Some ''gap_analysis'', cls_confidence = Some (9 / 10),
                      cls_reasoning = Some ''asks about readiness'',
                      extracted_entities =
                        Some \<lparr>major_mentioned = Some ''Computer Science'',
                              subjects_mentioned = None, interests_mentioned = None,
                              has_transcript_reference = Some False\<rparr>\<rparr>),
      call_llm = (\<lambda>w p. Inr ''Hello!''),
      call_llm_with_tools = (\<lambda>w p. Inr []),
      uuid4 = (\<lambda>w. ''00000000-0000-4000-8000-000000000000''),
      CRISIS_RESPONSE = ''You are not alone. Please reach out to someone who can help.''\<rparr>"

definition sample_world :: World where
  "sample_world = \<lparr>ticks = 0, llm_log = []\<rparr>"

definition sample_registry :: "string \<Rightarrow> tool option" where
  "sample_registry =
     (\<lambda>n. if n = ''get_major_info'' then Some (\<lambda>w a. Inr (Some ''{}''))
          else if n = ''parse_transcript'' then Some (\<lambda>w a. Inl ''File not found'')
          else None)"

definition sample_grades :: grades where
  "sample_grades = [(''Matem'' @ [a_acute] @ ''tica A'', Some 13), (''Physics'', Some 15)]"

definition sample_gap_math :: GradeGap where
  "sample_gap_math =
     \<lparr>subject = ''Math'', student_grade = 13, required_grade = 16, gap = 3,
      severity = ''significant'', priority = 2\<rparr>"

definition sample_gap_physics :: GradeGap where
  "sample_gap_physics =
     \<lparr>subject = ''Physics'', student_grade = 15, required_grade = 14, gap = - 1,
      severity = ''meets'', priority = 4\<rparr>"

definition sample_orchestrator :: Orchestrator where
  "sample_orchestrator =
     \<lparr>tool_registry = sample_registry, max_iterations = 5, max_tool_calls = 10\<rparr>"

definition sample_question :: string where
  "sample_question = ''Am I ready for Computer Science?''"



section \<open>Subject normalizer\<close>





section \<open>Grade gaps\<close>

lemma compare_Inr:
  assumes "compare_grades_to_requirements majors sg nm = Inr (gaps, r)"
  shows "\<exists>m. get_major_by_name majors nm True = Some m \<and> requirements m \<noteq> []
    \<and> gaps = map (\<lambda>(subj, required). grade_gap sg subj required) (requirements m)
    \<and> r = readiness_of gaps"
  using assms
  by (auto simp: compare_grades_to_requirements_def Let_def split: option.splits if_splits)


lemma grade_gap_fields:
  "subject (grade_gap sg subj req) = subj"
  "required_grade (grade_gap sg subj req) = req"
  "student_grade (grade_gap sg subj req) =
     (case find_matching_grade sg subj of None \<Rightarrow> PASSING_GRADE | Some g \<Rightarrow> g)"
  "gap (grade_gap sg subj req) = req -
     (case find_matching_grade sg subj of None \<Rightarrow> PASSING_GRADE | Some g \<Rightarrow> g)"
  by (simp_all add: grade_gap_def Let_def)




text \<open>
  Claim C3.  A required subject for which \<open>find_matching_grade\<close> finds nothing in the
  student's grades is compared with the passing grade 10 instead of failing.  For a major
  whose only requirement is \<open>Math: 16\<close> and the empty grade mapping, the single gap has
  \<open>student_grade = 10\<close>, \<open>gap = 6\<close>, severity \<open>significant\<close> and priority 1.
\<close>

theorem missing_subject_assumes_passing_grade:
  "(get_major_by_name majors nm True = Some m \<and> i < length (requirements m)
      \<and> requirements m ! i = (subj, req) \<and> find_matching_grade sg subj = None
    \<longrightarrow> (\<exists>gaps r. compare_grades_to_requirements majors sg nm = Inr (gaps, r)
           \<and> length gaps = length (requirements m)
           \<and> subject (gaps ! i) = subj \<and> required_grade (gaps ! i) = req
           \<and> student_grade (gaps ! i) = 10 \<and> gap (gaps ! i) = req - 10))
   \<and> (get_major_by_name majors nm True = Some m \<and> requirements m = [(''Math'', 16)]
    \<longrightarrow> compare_grades_to_requirements majors [] nm =
          Inr ([\<lparr>subject = ''Math'', student_grade = 10, required_grade = 16, gap = 6,
                 severity = ''significant'', priority = 1\<rparr>], ''needs_improvement''))"
proof (intro conjI impI)
  assume h: "get_major_by_name majors nm True = Some m \<and> i < length (requirements m)
      \<and> requirements m ! i = (subj, req) \<and> find_matching_grade sg subj = None"
  then have ne: "requirements m \<noteq> []" by auto
  let ?gaps = "map (\<lambda>(subj, required). grade_gap sg subj required) (requirements m)"
  have c: "compare_grades_to_requirements majors sg nm = Inr (?gaps, readiness_of ?gaps)"
    using h ne by (simp add: compare_grades_to_requirements_def Let_def)
  have gi: "?gaps ! i = grade_gap sg subj req" using h by simp
  have "subject (?gaps ! i) = subj \<and> required_grade (?gaps ! i) = req
           \<and> student_grade (?gaps ! i) = 10 \<and> gap (?gaps ! i) = req - 10"
    unfolding gi using h by (simp add: grade_gap_fields PASSING_GRADE_def)
  with c show "\<exists>gaps r. compare_grades_to_requirements majors sg nm = Inr (gaps, r)
           \<and> length gaps = length (requirements m)
           \<and> subject (gaps ! i) = subj \<and> required_grade (gaps ! i) = req
           \<and> student_grade (gaps ! i) = 10 \<and> gap (gaps ! i) = req - 10"
    by simp
next
  assume h: "get_major_by_name majors nm True = Some m \<and> requirements m = [(''Math'', 16)]"
  have "grade_gap [] ''Math'' 16 = \<lparr>subject = ''Math'', student_grade = 10, required_grade = 16, gap = 6,
                    severity = ''significant'', priority = 1\<rparr>"
    by (simp add: grade_gap_def find_matching_grade_def PASSING_GRADE_def Let_def)
  with h show "compare_grades_to_requirements majors [] nm =
          Inr ([\<lparr>subject = ''Math'', student_grade = 10, required_grade = 16, gap = 6,
                 severity = ''significant'', priority = 1\<rparr>], ''needs_improvement'')"
    by (simp add: compare_grades_to_requirements_def Let_def readiness_of_def is_gap_def)
qed

theorem missing_subject_assumes_passing_grade_witness:
  "(get_major_by_name sample_majors ''computer'' True = Some computer_science
      \<and> 1 < length (requirements computer_science)
      \<and> requirements computer_science ! 1 = (''Physics'', 14)
      \<and> find_matching_grade [(''Math'', Some 18)] ''Physics'' = None)
   \<and> (\<exists>gaps r. compare_grades_to_requirements sample_majors [(''Math'', Some 18)] ''computer''
                   = Inr (gaps, r)
           \<and> length gaps = length (requirements computer_science)
           \<and> subject (gaps ! 1) = ''Physics'' \<and> required_grade (gaps ! 1) = 14
           \<and> student_grade (gaps ! 1) = 10 \<and> gap (gaps ! 1) = 14 - 10)
   \<and> (get_major_by_name sample_majors ''mathematics'' True = Some mathematics
        \<and> requirements mathematics = [(''Math'', 16)])
   \<and> compare_grades_to_requirements sample_majors [] ''mathematics'' =
        Inr ([\<lparr>subject = ''Math'', student_grade = 10, required_grade = 16, gap = 6,
               severity = ''significant'', priority = 1\<rparr>], ''needs_improvement'')"
proof -
  have h1: "get_major_by_name sample_majors ''computer'' True = Some computer_science
      \<and> 1 < length (requirements computer_science)
      \<and> requirements computer_science ! 1 = (''Physics'', 14)
      \<and> find_matching_grade [(''Math'', Some 18)] ''Physics'' = None"
    by code_simp
  have h2: "get_major_by_name sample_majors ''mathematics'' True = Some mathematics
        \<and> requirements mathematics = [(''Math'', 16)]"
    by code_simp
  note c1 = missing_subject_assumes_passing_grade [THEN conjunct1, rule_format, OF h1]
  note c2 = missing_subject_assumes_passing_grade [THEN conjunct2, rule_format, OF h2]
  show ?thesis by (rule conjI [OF h1 conjI [OF c1 conjI [OF h2 c2]]])
qed

lemma readiness_of_cases:
  "(readiness_of gaps = ''ready'' \<longleftrightarrow> \<not> (\<exists>g \<in> set gaps. gap g > 0))
   \<and> (readiness_of gaps = ''mostly_ready'' \<longleftrightarrow>
        (\<exists>g \<in> set gaps. gap g > 0) \<and> (\<forall>g \<in> set gaps. gap g > 0 \<longrightarrow> severity g = ''close''))
   \<and> (readiness_of gaps = ''significant_gaps'' \<longleftrightarrow>
        2 \<le> length (filter (\<lambda>g. gap g > 0 \<and> severity g = ''significant'') gaps))
   \<and> (readiness_of gaps = ''needs_improvement'' \<longleftrightarrow>
        (\<exists>g \<in> set gaps. gap g > 0)
        \<and> \<not> (\<forall>g \<in> set gaps. gap g > 0 \<longrightarrow> severity g = ''close'')
        \<and> \<not> 2 \<le> length (filter (\<lambda>g. gap g > 0 \<and> severity g = ''significant'') gaps))"
proof -
  let ?A = "filter is_gap gaps"
  let ?S = "filter (\<lambda>g. severity g = ''significant'') ?A"
  have e: "?A = [] \<longleftrightarrow> \<not> (\<exists>g \<in> set gaps. gap g > 0)"
    by (auto simp: filter_empty_conv is_gap_def)
  have a: "list_all (\<lambda>g. severity g = ''close'') ?A
           \<longleftrightarrow> (\<forall>g \<in> set gaps. gap g > 0 \<longrightarrow> severity g = ''close'')"
    by (auto simp: list_all_iff is_gap_def)
  have s: "?S = filter (\<lambda>g. gap g > 0 \<and> severity g = ''significant'') gaps"
    by (simp add: is_gap_def conj_commute)
  have x: "list_ex (\<lambda>g. severity g = ''significant'') ?A \<longleftrightarrow> ?S \<noteq> []"
    by (auto simp: list_ex_iff filter_empty_conv)
  have two: "2 \<le> length ?S \<Longrightarrow> ?S \<noteq> []" by auto
  have nc: "?S \<noteq> [] \<Longrightarrow> \<not> list_all (\<lambda>g. severity g = ''close'') ?A"
    by (auto simp: list_all_iff filter_empty_conv)
  have ne: "?S \<noteq> [] \<Longrightarrow> ?A \<noteq> []" by (auto simp: filter_empty_conv)
  let ?P = "\<exists>g \<in> set gaps. gap g > 0"
  let ?C = "\<forall>g \<in> set gaps. gap g > 0 \<longrightarrow> severity g = ''close''"
  let ?T = "filter (\<lambda>g. gap g > 0 \<and> severity g = ''significant'') gaps"
  show ?thesis
  proof (cases "?A = []")
    case True
    then have r: "readiness_of gaps = ''ready''" by (simp add: readiness_of_def Let_def)
    from True e have np: "\<not> ?P" by simp
    then have "?T = []" by (auto simp: filter_empty_conv)
    with np show ?thesis unfolding r by simp
  next
    case False
    with e have p: "?P" by simp
    show ?thesis
    proof (cases "list_all (\<lambda>g. severity g = ''close'') ?A")
      case True
      with False have r: "readiness_of gaps = ''mostly_ready''"
        by (simp add: readiness_of_def Let_def)
      from True a have c: "?C" by simp
      from True nc have "?S = []" by blast
      with s have "?T = []" by simp
      with p c show ?thesis unfolding r by simp
    next
      case nclose: False
      with a have c: "\<not> ?C" by simp
      show ?thesis
      proof (cases "2 \<le> length ?S")
        case True
        with two x have "list_ex (\<lambda>g. severity g = ''significant'') ?A" by blast
        with True False nclose have r: "readiness_of gaps = ''significant_gaps''"
          by (simp add: readiness_of_def Let_def)
        from True s have "2 \<le> length ?T" by simp
        with p c show ?thesis unfolding r by simp
      next
        case few: False
        with False nclose have r: "readiness_of gaps = ''needs_improvement''"
          by (simp add: readiness_of_def Let_def)
        from few s have "\<not> 2 \<le> length ?T" by simp
        with p c show ?thesis unfolding r by simp
      qed
    qed
  qed
qed

text \<open>
  Claim C4.  The readiness label of a result is \<open>ready\<close> iff no gap is positive;
  \<open>mostly_ready\<close> iff some gap is positive and every positive gap has severity
  \<open>close\<close>; \<open>significant_gaps\<close> iff at least two positive gaps have severity
  \<open>significant\<close>; and \<open>needs_improvement\<close> in every other case with a positive gap.
\<close>

theorem readiness_label:
  assumes "compare_grades_to_requirements majors sg nm = Inr (gaps, r)"
  shows "(r = ''ready'' \<longleftrightarrow> \<not> (\<exists>g \<in> set gaps. gap g > 0))
   \<and> (r = ''mostly_ready'' \<longleftrightarrow>
        (\<exists>g \<in> set gaps. gap g > 0) \<and> (\<forall>g \<in> set gaps. gap g > 0 \<longrightarrow> severity g = ''close''))
   \<and> (r = ''significant_gaps'' \<longleftrightarrow>
        2 \<le> length (filter (\<lambda>g. gap g > 0 \<and> severity g = ''significant'') gaps))
   \<and> (r = ''needs_improvement'' \<longleftrightarrow>
        (\<exists>g \<in> set gaps. gap g > 0)
        \<and> \<not> (\<forall>g \<in> set gaps. gap g > 0 \<longrightarrow> severity g = ''close'')
        \<and> \<not> 2 \<le> length (filter (\<lambda>g. gap g > 0 \<and> severity g = ''significant'') gaps))"
proof -
  from compare_Inr [OF assms] have "r = readiness_of gaps" by auto
  then show ?thesis using readiness_of_cases [of gaps] by simp
qed

theorem readiness_label_witness:
  "compare_grades_to_requirements sample_majors sample_grades ''computer sci''
     = Inr ([sample_gap_math, sample_gap_physics], ''needs_improvement'')
   \<and> (\<exists>g \<in> set [sample_gap_math, sample_gap_physics]. gap g > 0)
   \<and> \<not> (\<forall>g \<in> set [sample_gap_math, sample_gap_physics]. gap g > 0 \<longrightarrow> severity g = ''close'')
   \<and> \<not> 2 \<le> length (filter (\<lambda>g. gap g > 0 \<and> severity g = ''significant'')
                        [sample_gap_math, sample_gap_physics])"
proof -
  have h1: "compare_grades_to_requirements sample_majors sample_grades ''computer sci''
     = Inr ([sample_gap_math, sample_gap_physics], ''needs_improvement'')"
    by code_simp
  from h1 readiness_label [OF h1] show ?thesis by simp
qed

section \<open>Crisis short-circuit\<close>

lemma py_in_sublist: "py_in needle hay \<longleftrightarrow> sublist needle hay"
  by (induction hay) (auto simp: sublist_Cons_right)

lemma py_in_iff: "py_in needle hay \<longleftrightarrow> (\<exists>pre post. hay = pre @ needle @ post)"
  by (simp add: py_in_sublist sublist_def)

lemma lower_append: "lower (xs @ ys) = lower xs @ lower ys"
  by (simp add: lower_def)

lemma crisis_keywords_lower_all: "list_all (\<lambda>kw. lower kw = kw) CRISIS_KEYWORDS"
  by code_simp

lemma crisis_keywords_lower: "kw \<in> set CRISIS_KEYWORDS \<Longrightarrow> lower kw = kw"
  using crisis_keywords_lower_all by (simp add: list_all_iff)

lemma detect_crisis_occurrence:
  assumes "kw \<in> set CRISIS_KEYWORDS" and "lower seg = lower kw"
  shows "detect_crisis_keywords (pre @ seg @ post)"
proof -
  from assms have "lower (pre @ seg @ post) = lower pre @ kw @ lower post"
    by (simp add: lower_append crisis_keywords_lower)
  then have "py_in kw (lower (pre @ seg @ post))"
    unfolding py_in_iff by blast
  with assms(1) show ?thesis
    by (auto simp: detect_crisis_keywords_def list_ex_iff)
qed

text \<open>
  Claim C1.  A message that contains, in any letter case and at any position, a phrase of
  \<open>CRISIS_KEYWORDS\<close> (an occurrence \<open>seg\<close> whose lower-casing is the phrase) is
  classified as \<open>CRISIS_SAFETY\<close> with confidence 1 for every history and every list of
  uploaded files, and the world is returned unchanged: no prompt is sent to the model.
  For the same message \<open>process_message\<close> answers with the fixed crisis response,
  \<open>success = True\<close>, \<open>metadata["intent"] = "crisis_safety"\<close> and no suggestions, again
  without any call of the model.
\<close>

theorem crisis_short_circuit:
  assumes "kw \<in> set CRISIS_KEYWORDS" and "lower seg = lower kw"
  shows "classify_intent env (pre @ seg @ post) history uploaded w =
           (\<lparr>intent = CRISIS_SAFETY, confidence = 1,
             reasoning = Some ''Crisis/safety keywords detected in user message'',
             ctx = empty_context, requires_transcript = False, requires_major = False\<rparr>, w)
         \<and> message (fst (process_message env registry (pre @ seg @ post) history uploaded sid uid w))
             = CRISIS_RESPONSE env
         \<and> response_success (fst (process_message env registry (pre @ seg @ post) history uploaded sid uid w))
         \<and> meta_intent (response_metadata
               (fst (process_message env registry (pre @ seg @ post) history uploaded sid uid w)))
             = Some ''crisis_safety''
         \<and> suggestions (fst (process_message env registry (pre @ seg @ post) history uploaded sid uid w))
             = None
         \<and> llm_log (snd (process_message env registry (pre @ seg @ post) history uploaded sid uid w))
             = llm_log w"
proof -
  have d: "detect_crisis_keywords (pre @ seg @ post)"
    using assms by (rule detect_crisis_occurrence)
  have c: "\<And>h u. classify_intent env (pre @ seg @ post) h u w =
           (\<lparr>intent = CRISIS_SAFETY, confidence = 1,
             reasoning = Some ''Crisis/safety keywords detected in user message'',
             ctx = empty_context, requires_transcript = False, requires_major = False\<rparr>, w)"
    using d by (simp add: classify_intent_def)
  show ?thesis
    by (simp add: c process_message_def Let_def no_metadata_def)
qed

theorem crisis_short_circuit_witness:
  "''kill myself'' \<in> set CRISIS_KEYWORDS
   \<and> lower ''KILL Myself'' = lower ''kill myself''
   \<and> (classify_intent sample_env (''I want to '' @ ''KILL Myself'' @ '' now'')
           (Some [\<lparr>role = ''user'', content = ''hello''\<rparr>])
           (Some [\<lparr>file_name = Some ''grades.pdf'', file_path = None\<rparr>]) sample_world =
           (\<lparr>intent = CRISIS_SAFETY, confidence = 1,
             reasoning = Some ''Crisis/safety keywords detected in user message'',
             ctx = empty_context, requires_transcript = False, requires_major = False\<rparr>,
            sample_world)
         \<and> message (fst (process_message sample_env sample_registry
               (''I want to '' @ ''KILL Myself'' @ '' now'')
               (Some [\<lparr>role = ''user'', content = ''hello''\<rparr>])
               (Some [\<lparr>file_name = Some ''grades.pdf'', file_path = None\<rparr>])
               None None sample_world))
             = CRISIS_RESPONSE sample_env
         \<and> response_success (fst (process_message sample_env sample_registry
               (''I want to '' @ ''KILL Myself'' @ '' now'')
               (Some [\<lparr>role = ''user'', content = ''hello''\<rparr>])
               (Some [\<lparr>file_name = Some ''grades.pdf'', file_path = None\<rparr>])
               None None sample_world))
         \<and> meta_intent (response_metadata (fst (process_message sample_env sample_registry
               (''I want to '' @ ''KILL Myself'' @ '' now'')
               (Some [\<lparr>role = ''user'', content = ''hello''\<rparr>])
               (Some [\<lparr>file_name = Some ''grades.pdf'', file_path = None\<rparr>])
               None None sample_world)))
             = Some ''crisis_safety''
         \<and> suggestions (fst (process_message sample_env sample_registry
               (''I want to '' @ ''KILL Myself'' @ '' now'')
               (Some [\<lparr>role = ''user'', content = ''hello''\<rparr>])
               (Some [\<lparr>file_name = Some ''grades.pdf'', file_path = None\<rparr>])
               None None sample_world))
             = None
         \<and> llm_log (snd (process_message sample_env sample_registry
               (''I want to '' @ ''KILL Myself'' @ '' now'')
               (Some [\<lparr>role = ''user'', content = ''hello''\<rparr>])
               (Some [\<lparr>file_name = Some ''grades.pdf'', file_path = None\<rparr>])
               None None sample_world))
             = llm_log sample_world)"
proof -
  have h1: "''kill myself'' \<in> set CRISIS_KEYWORDS" by code_simp
  have h2: "lower ''KILL Myself'' = lower ''kill myself''" by code_simp
  show ?thesis
    by (rule conjI [OF h1 conjI [OF h2 crisis_short_circuit [OF h1 h2]]])
qed

section \<open>Tool execution\<close>



section \<open>Similar majors\<close>

lemma filter_no_candidates:
  "\<forall>m \<in> set majors. major_id m \<noteq> major_id r \<longrightarrow> overlap r m = 0 \<Longrightarrow>
   filter (\<lambda>m. major_id m \<noteq> major_id r \<and> overlap r m > 0) majors = []"
  by (auto simp: filter_empty_conv)

text \<open>
  Claim C10.  For a name that resolves to no major, \<open>get_similar_majors\<close> returns the
  empty list, where \<open>compare_grades_to_requirements\<close> raises; the same empty list is
  returned for a known major none of whose keywords occurs in another major, so the two
  cases look alike to a caller.
\<close>

theorem similar_majors_unknown_is_empty:
  "(get_major_by_name majors nm True = None \<longrightarrow>
      get_similar_majors majors nm n = []
      \<and> compare_grades_to_requirements majors sg nm = Inl (MajorNotFound nm))
   \<and> (get_major_by_name majors nm True = Some r
       \<and> (\<forall>m \<in> set majors. major_id m \<noteq> major_id r \<longrightarrow> overlap r m = 0) \<longrightarrow>
      get_similar_majors majors nm n = [])"
  by (auto simp: get_similar_majors_def compare_grades_to_requirements_def Let_def
        filter_no_candidates sorted_reverse_def slice_to_def)

theorem similar_majors_unknown_is_empty_witness:
  "get_major_by_name sample_majors ''astrology'' True = None
   \<and> (get_similar_majors sample_majors ''astrology'' 3 = []
      \<and> compare_grades_to_requirements sample_majors sample_grades ''astrology''
          = Inl (MajorNotFound ''astrology''))
   \<and> get_major_by_name sample_majors ''fine arts'' True = Some fine_arts
   \<and> list_all (\<lambda>m. major_id m = major_id fine_arts \<or> overlap fine_arts m = 0) sample_majors
   \<and> get_similar_majors sample_majors ''fine arts'' 3 = []"
proof -
  have h1: "get_major_by_name sample_majors ''astrology'' True = None" by code_simp
  have h2: "get_major_by_name sample_majors ''fine arts'' True = Some fine_arts" by code_simp
  have h3: "list_all (\<lambda>m. major_id m = major_id fine_arts \<or> overlap fine_arts m = 0) sample_majors"
    by code_simp
  from h3 have h4: "\<forall>m \<in> set sample_majors. major_id m \<noteq> major_id fine_arts \<longrightarrow> overlap fine_arts m = 0"
    by (auto simp: list_all_iff)
  note c1 = similar_majors_unknown_is_empty [THEN conjunct1, rule_format, OF h1]
  note c2 = similar_majors_unknown_is_empty [THEN conjunct2, rule_format, OF conjI [OF h2 h4]]
  show ?thesis
    by (rule conjI [OF h1 conjI [OF c1 conjI [OF h2 conjI [OF h3 c2]]]])
qed

section \<open>Clarification before planning\<close>

lemma requires_clarification_nonempty:
  "requires_clarification r = Some q \<Longrightarrow> truthy_str (Some q)"
  by (auto simp: requires_clarification_def truthy_str_def rephrase_question_def
        which_major_question_def upload_prompt_def split: if_splits)

lemma classify_intent_log:
  "llm_log (snd (classify_intent env msg h up w)) = llm_log w
   \<or> llm_log (snd (classify_intent env msg h up w)) = llm_log w @ [classification_prompt msg h up]"
  by (auto simp: classify_intent_def sent_def Let_def split: sum.splits)

lemma classify_intent_has_transcript:
  "\<not> detect_crisis_keywords msg \<Longrightarrow>
     ctx_has_transcript (ctx (fst (classify_intent env msg h up w))) = Some (has_files up)"
  by (auto simp: classify_intent_def intent_from_reply_def fallback_classification_def Let_def
        split: sum.splits)

lemma run_clarification:
  assumes "requires_clarification (fst (classify_intent env msg h up (snd (time_now env w)))) = Some q"
  shows "status (fst (run env orch msg h up sid uid w)) = COMPLETED
        \<and> final_response (fst (run env orch msg h up sid uid w)) = Some q
        \<and> tool_calls (fst (run env orch msg h up sid uid w)) = []
        \<and> tool_results (fst (run env orch msg h up sid uid w)) = []
        \<and> plan (fst (run env orch msg h up sid uid w)) = None
        \<and> llm_log (snd (run env orch msg h up sid uid w))
            = llm_log (snd (classify_intent env msg h up (snd (time_now env w))))"
proof -
  obtain t0 w0 where tw: "time_now env w = (t0, w0)" by (cases "time_now env w")
  obtain ir w1 where ci: "classify_intent env msg h up w0 = (ir, w1)"
    by (cases "classify_intent env msg h up w0")
  from assms tw ci have q: "requires_clarification ir = Some q" by simp
  then have t: "truthy_str (requires_clarification ir)"
    using requires_clarification_nonempty by simp
  show ?thesis
    using tw ci q t
    by (simp add: run_def Let_def finish_def time_now_def split: prod.splits)
qed

text \<open>
  Claim C9.  \<open>requires_clarification\<close> checks in this order: the rephrase question when
  the confidence is below 0.5; else the which-major question when the intent is
  \<open>GAP_ANALYSIS\<close> and no major was extracted; else the transcript-upload prompt when a
  transcript is required and \<open>has_transcript\<close> is not set, which for every classified
  message means that no file was uploaded in this turn; else \<open>None\<close>.  Whenever it returns
  a question for the classified intent, \<open>run\<close> ends with status \<open>COMPLETED\<close>, that
  question as \<open>final_response\<close>, empty \<open>tool_calls\<close> and \<open>tool_results\<close>, no plan, and
  no prompt sent to the model besides the classification prompt: no synthesis step.
\<close>

theorem clarification_before_planning:
  "requires_clarification r =
      (if confidence r < 1 / 2 then Some rephrase_question
       else if intent r = GAP_ANALYSIS \<and> (ctx_major (ctx r) = None \<or> ctx_major (ctx r) = Some [])
       then Some which_major_question
       else if requires_transcript r \<and> ctx_has_transcript (ctx r) \<noteq> Some True
       then Some upload_prompt
       else None)
   \<and> (\<not> detect_crisis_keywords msg \<longrightarrow>
        ctx_has_transcript (ctx (fst (classify_intent env msg h up w0))) = Some (has_files up))
   \<and> (requires_clarification (fst (classify_intent env msg h up (snd (time_now env w)))) = Some q
      \<longrightarrow> status (fst (run env orch msg h up sid uid w)) = COMPLETED
        \<and> final_response (fst (run env orch msg h up sid uid w)) = Some q
        \<and> tool_calls (fst (run env orch msg h up sid uid w)) = []
        \<and> tool_results (fst (run env orch msg h up sid uid w)) = []
        \<and> plan (fst (run env orch msg h up sid uid w)) = None
        \<and> (llm_log (snd (run env orch msg h up sid uid w)) = llm_log w
           \<or> llm_log (snd (run env orch msg h up sid uid w))
               = llm_log w @ [classification_prompt msg h up]))"
proof (intro conjI impI)
  show "requires_clarification r =
      (if confidence r < 1 / 2 then Some rephrase_question
       else if intent r = GAP_ANALYSIS \<and> (ctx_major (ctx r) = None \<or> ctx_major (ctx r) = Some [])
       then Some which_major_question
       else if requires_transcript r \<and> ctx_has_transcript (ctx r) \<noteq> Some True
       then Some upload_prompt
       else None)"
    by (auto simp: requires_clarification_def truthy_str_def split: option.splits)
next
  assume "\<not> detect_crisis_keywords msg"
  then show "ctx_has_transcript (ctx (fst (classify_intent env msg h up w0))) = Some (has_files up)"
    by (rule classify_intent_has_transcript)
next
  assume a: "requires_clarification (fst (classify_intent env msg h up (snd (time_now env w)))) = Some q"
  note r = run_clarification [OF a, of orch sid uid]
  have l: "llm_log (snd (time_now env w)) = llm_log w" by (simp add: time_now_def)
  from r show "status (fst (run env orch msg h up sid uid w)) = COMPLETED" by simp
  from r show "final_response (fst (run env orch msg h up sid uid w)) = Some q" by simp
  from r show "tool_calls (fst (run env orch msg h up sid uid w)) = []" by simp
  from r show "tool_results (fst (run env orch msg h up sid uid w)) = []" by simp
  from r show "plan (fst (run env orch msg h up sid uid w)) = None" by simp
  from r classify_intent_log [of env msg h up "snd (time_now env w)"] l
  show "llm_log (snd (run env orch msg h up sid uid w)) = llm_log w
           \<or> llm_log (snd (run env orch msg h up sid uid w))
               = llm_log w @ [classification_prompt msg h up]"
    by auto
qed

theorem clarification_before_planning_witness:
  "\<not> detect_crisis_keywords sample_question
   \<and> ctx_has_transcript (ctx (fst (classify_intent sample_env sample_question None None
        (snd (time_now sample_env sample_world))))) = Some (has_files None)
   \<and> requires_clarification (fst (classify_intent sample_env sample_question None None
        (snd (time_now sample_env sample_world)))) = Some upload_prompt
   \<and> (status (fst (run sample_env sample_orchestrator sample_question None None None None
                    sample_world)) = COMPLETED
        \<and> final_response (fst (run sample_env sample_orchestrator sample_question None None None
                    None sample_world)) = Some upload_prompt
        \<and> tool_calls (fst (run sample_env sample_orchestrator sample_question None None None None
                    sample_world)) = []
        \<and> tool_results (fst (run sample_env sample_orchestrator sample_question None None None
                    None sample_world)) = []
        \<and> plan (fst (run sample_env sample_orchestrator sample_question None None None None
                    sample_world)) = None
        \<and> (llm_log (snd (run sample_env sample_orchestrator sample_question None None None None
                    sample_world)) = llm_log sample_world
           \<or> llm_log (snd (run sample_env sample_orchestrator sample_question None None None None
                    sample_world))
               = llm_log sample_world @ [classification_prompt sample_question None None]))"
proof -
  have h1: "\<not> detect_crisis_keywords sample_question" by code_simp
  have h2: "requires_clarification (fst (classify_intent sample_env sample_question None None
        (snd (time_now sample_env sample_world)))) = Some upload_prompt"
    by code_simp
  note c1 = clarification_before_planning [THEN conjunct2, THEN conjunct1, rule_format, OF h1]
  note c2 = clarification_before_planning [THEN conjunct2, THEN conjunct2, rule_format, OF h2]
  show ?thesis
    by (rule conjI [OF h1 conjI [OF c1 conjI [OF h2 c2]]])
qed

section \<open>Transcript analysis\<close>










section \<open>Interest matching\<close>















end
